theory Spec2Isabelle
  imports Main "HOL-Library.Sublist" "HOL-Library.Multiset"
begin

section \<open>The Kubernetes objects read by \<^verbatim>\<open>src/k8s.py\<close>\<close>

text \<open>
  The module reads objects of the Kubernetes client through attribute access. Each class
  is a record holding the attributes the module reads. An attribute that may be
  \<^verbatim>\<open>None\<close> has an option type. Reading an attribute of \<^verbatim>\<open>None\<close> raises
  \<^verbatim>\<open>AttributeError\<close> in Python: the functions that can do so return a sum, with
  \<open>Inl\<close> for the exception.

  Optional are the attributes the module tests before use, and four it reads with no
  test: the \<^verbatim>\<open>spec\<close> of a controller, the \<^verbatim>\<open>containers\<close> of a pod spec, the \<^verbatim>\<open>name\<close> of a
  secret key reference and the \<^verbatim>\<open>metadata\<close> of a secret. Three attributes are always
  present: the \<^verbatim>\<open>name\<close> of a volume mount and the \<^verbatim>\<open>name\<close> of the metadata of a listed
  secret are strings (\<^verbatim>\<open>_list_all_secrets\<close> is declared to return \<^verbatim>\<open>set[str]\<close>), and the
  \<^verbatim>\<open>items\<close> of a listing of workloads is a list. The calls of the API are total: a failure
  of the cluster is not part of the model.

  A Python string is a \<open>string\<close>; the three prefixes of line 30 are ASCII.

  Three classes have an attribute \<^verbatim>\<open>spec\<close> and four an attribute \<^verbatim>\<open>name\<close>; the record
  fields carry a prefix to tell them apart (the pod's \<open>spec\<close> apart).
\<close>

datatype error = AttributeError

text \<open>\<^verbatim>\<open>V1SecretVolumeSource\<close>, read as \<^verbatim>\<open>volume.secret\<close>.\<close>

record V1SecretVolumeSource =
  secret_name :: "string option"

record V1Volume =
  secret :: "V1SecretVolumeSource option"

text \<open>\<^verbatim>\<open>V1SecretKeySelector\<close>, read as \<^verbatim>\<open>env.value_from.secret_key_ref\<close>.\<close>

record V1SecretKeySelector =
  key_ref_name :: "string option"

record V1EnvVarSource =
  secret_key_ref :: "V1SecretKeySelector option"

record V1EnvVar =
  value_from :: "V1EnvVarSource option"

text \<open>\<^verbatim>\<open>V1SecretEnvSource\<close>, read as \<^verbatim>\<open>env_from.secret_ref\<close>.\<close>

record V1SecretEnvSource =
  secret_ref_name :: "string option"

record V1EnvFromSource =
  secret_ref :: "V1SecretEnvSource option"

record V1VolumeMount =
  mount_name :: string

record V1Container =
  env :: "V1EnvVar list option"
  env_from :: "V1EnvFromSource list option"
  volume_mounts :: "V1VolumeMount list option"

record V1PodSpec =
  volumes :: "V1Volume list option"
  containers :: "V1Container list option"
  init_containers :: "V1Container list option"

text \<open>\<^verbatim>\<open>V1PodTemplateSpec\<close>, read as \<^verbatim>\<open>deployment.spec.template\<close>.\<close>

record V1PodTemplateSpec =
  template_spec :: "V1PodSpec option"

text \<open>
  The specs of the four controller kinds (\<^verbatim>\<open>V1DeploymentSpec\<close>, \<^verbatim>\<open>V1StatefulSetSpec\<close>,
  \<^verbatim>\<open>V1DaemonSetSpec\<close>, \<^verbatim>\<open>V1ReplicaSetSpec\<close>) are read through the one attribute
  \<^verbatim>\<open>template\<close>, and the controllers through the one attribute \<^verbatim>\<open>spec\<close>: one record serves
  the four.
\<close>

record V1ControllerSpec =
  template :: "V1PodTemplateSpec option"

record V1Controller =
  controller_spec :: "V1ControllerSpec option"

record V1Pod =
  spec :: "V1PodSpec option"

record V1ObjectMeta =
  meta_name :: string

record V1Secret =
  metadata :: "V1ObjectMeta option"

text \<open>
  The two API clients \<^verbatim>\<open>v1\<close> and \<^verbatim>\<open>apps_v1\<close> are module globals; here they are one
  explicit argument. Each listing call is modelled by the \<^verbatim>\<open>items\<close> attribute of the
  list object it returns, as a function of the namespace. The field
  \<open>list_namespaced_stateful_set\<close> is the call of \<^verbatim>\<open>AppsV1Api\<close> that lists StatefulSets.
\<close>

record cluster =
  list_namespaced_secret :: "string \<Rightarrow> V1Secret list option"
  list_namespaced_deployment :: "string \<Rightarrow> V1Controller list"
  list_namespaced_stateful_set :: "string \<Rightarrow> V1Controller list"
  list_namespaced_daemon_set :: "string \<Rightarrow> V1Controller list"
  list_namespaced_pod :: "string \<Rightarrow> V1Pod list"
  list_namespaced_replica_set :: "string \<Rightarrow> V1Controller list"

section \<open>\<^verbatim>\<open>_get_used_secrets_in_container\<close>\<close>

text \<open>
  A used-secret set holds whatever the loops add to it: strings, and \<^verbatim>\<open>None\<close> where an
  added attribute is \<^verbatim>\<open>None\<close>. Its elements are of type \<open>string option\<close>.

  Each \<^verbatim>\<open>for\<close> loop is a \<open>fold\<close> of its body over the list; the body takes the set and
  returns the updated set.
\<close>

text \<open>Lines 147-148: the body of the loop over \<^verbatim>\<open>container.env\<close>.\<close>

definition add_env_secret :: "V1EnvVar \<Rightarrow> string option set \<Rightarrow> string option set" where
  "add_env_secret e used_secrets =
     (case value_from e of
        None \<Rightarrow> used_secrets
      | Some vf \<Rightarrow>
          (case secret_key_ref vf of
             None \<Rightarrow> used_secrets
           | Some r \<Rightarrow> insert (key_ref_name r) used_secrets))"

text \<open>
  Lines 151-152: the body of the loop over \<^verbatim>\<open>container.env_from\<close>. The test
  \<^verbatim>\<open>env_from.secret_ref.name\<close> is Python truthiness: neither \<^verbatim>\<open>None\<close> nor the empty string.
\<close>

definition add_env_from_secret ::
  "V1EnvFromSource \<Rightarrow> string option set \<Rightarrow> string option set" where
  "add_env_from_secret ef used_secrets =
     (case secret_ref ef of
        None \<Rightarrow> used_secrets
      | Some r \<Rightarrow>
          (case secret_ref_name r of
             None \<Rightarrow> used_secrets
           | Some n \<Rightarrow> if n = [] then used_secrets else insert (Some n) used_secrets))"

text \<open>Lines 155-156: the body of the loop over \<^verbatim>\<open>container.volume_mounts\<close>.\<close>

definition add_volume_mount :: "V1VolumeMount \<Rightarrow> string option set \<Rightarrow> string option set" where
  "add_volume_mount vm used_secrets =
     (if Some (mount_name vm) \<in> used_secrets
      then insert (Some (mount_name vm)) used_secrets
      else used_secrets)"

text \<open>
  \<^verbatim>\<open>if xs: for x in xs: body\<close>: the loop runs when the attribute is neither \<^verbatim>\<open>None\<close> nor
  empty.
\<close>

definition for_each_if_present ::
  "('a \<Rightarrow> 's \<Rightarrow> 's) \<Rightarrow> 'a list option \<Rightarrow> 's \<Rightarrow> 's" where
  "for_each_if_present body xs s =
     (case xs of
        None \<Rightarrow> s
      | Some l \<Rightarrow> if l = [] then s else fold body l s)"

definition get_used_secrets_in_container :: "V1Container \<Rightarrow> string option set" where
  "get_used_secrets_in_container container =
     (let used_secrets = {};
          used_secrets = for_each_if_present add_env_secret (env container) used_secrets;
          used_secrets = for_each_if_present add_env_from_secret (env_from container) used_secrets;
          used_secrets = for_each_if_present add_volume_mount (volume_mounts container) used_secrets
      in used_secrets)"

section \<open>\<^verbatim>\<open>_get_used_secrets_in_pod_spec\<close>\<close>

text \<open>Lines 122-123: the body of the loop over \<^verbatim>\<open>pod_template.volumes\<close>.\<close>

definition add_volume_secret :: "V1Volume \<Rightarrow> string option set \<Rightarrow> string option set" where
  "add_volume_secret volume used_secrets =
     (case secret volume of
        None \<Rightarrow> used_secrets
      | Some src \<Rightarrow>
          (case secret_name src of
             None \<Rightarrow> used_secrets
           | Some n \<Rightarrow> if n = [] then used_secrets else insert (Some n) used_secrets))"

text \<open>Lines 127-128: the body of the loop over the containers.\<close>

definition add_container_secrets ::
  "V1Container \<Rightarrow> string option set \<Rightarrow> string option set" where
  "add_container_secrets container used_secrets =
     used_secrets \<union> get_used_secrets_in_container container"

text \<open>\<^verbatim>\<open>xs or []\<close>.\<close>

definition or_empty :: "'a list option \<Rightarrow> 'a list" where
  "or_empty xs = (case xs of None \<Rightarrow> [] | Some l \<Rightarrow> l)"

text \<open>
  Line 124 calls \<^verbatim>\<open>pod_template.containers.copy()\<close> with no test before it: when
  \<^verbatim>\<open>containers\<close> is \<^verbatim>\<open>None\<close> the call raises \<^verbatim>\<open>AttributeError\<close>, after the loop over the
  volumes has run.
\<close>

definition get_used_secrets_in_pod_spec :: "V1PodSpec \<Rightarrow> error + string option set" where
  "get_used_secrets_in_pod_spec pod_template =
     (let used_secrets = {};
          used_secrets = for_each_if_present add_volume_secret (volumes pod_template) used_secrets
      in case containers pod_template of
           None \<Rightarrow> Inl AttributeError
         | Some cs \<Rightarrow>
             (let containers = cs @ or_empty (init_containers pod_template)
              in Inr (fold add_container_secrets containers used_secrets)))"

section \<open>\<^verbatim>\<open>_get_all_pod_specs\<close>\<close>

text \<open>
  Lines 98-100: the loop over the controllers, appending to \<^verbatim>\<open>pod_specs\<close>. The condition
  reads \<^verbatim>\<open>deployment.spec.template\<close> with no test of \<^verbatim>\<open>deployment.spec\<close>: a controller
  whose \<^verbatim>\<open>spec\<close> is \<^verbatim>\<open>None\<close> raises \<^verbatim>\<open>AttributeError\<close>.
\<close>

fun controllers_loop :: "V1Controller list \<Rightarrow> V1PodSpec list \<Rightarrow> error + V1PodSpec list" where
  "controllers_loop [] pod_specs = Inr pod_specs"
| "controllers_loop (deployment # rest) pod_specs =
     (case controller_spec deployment of
        None \<Rightarrow> Inl AttributeError
      | Some s \<Rightarrow>
          (case template s of
             None \<Rightarrow> controllers_loop rest pod_specs
           | Some t \<Rightarrow>
               (case template_spec t of
                  None \<Rightarrow> controllers_loop rest pod_specs
                | Some ps \<Rightarrow> controllers_loop rest (pod_specs @ [ps]))))"

text \<open>Lines 101-103: the loop over the standalone pods.\<close>

fun pods_loop :: "V1Pod list \<Rightarrow> V1PodSpec list \<Rightarrow> V1PodSpec list" where
  "pods_loop [] pod_specs = pod_specs"
| "pods_loop (pod # rest) pod_specs =
     (case spec pod of
        None \<Rightarrow> pods_loop rest pod_specs
      | Some ps \<Rightarrow> pods_loop rest (pod_specs @ [ps]))"

text \<open>Lines 97-104: the two loops, from the empty list.\<close>

definition collect_pod_specs :: "V1Controller list \<Rightarrow> V1Pod list \<Rightarrow> error + V1PodSpec list" where
  "collect_pod_specs controllers pods =
     (case controllers_loop controllers [] of
        Inl e \<Rightarrow> Inl e
      | Inr pod_specs \<Rightarrow> Inr (pods_loop pods pod_specs))"

text \<open>
  Lines 82-96 fetch five listings. The second one, bound to \<^verbatim>\<open>statefulsets_list\<close>, is
  fetched with \<^verbatim>\<open>apps_v1.list_namespaced_deployment\<close>, as the first one is.
\<close>

definition get_all_pod_specs :: "cluster \<Rightarrow> string \<Rightarrow> error + V1PodSpec list" where
  "get_all_pod_specs api namespace =
     (let deployments_list = list_namespaced_deployment api namespace;
          statefulsets_list = list_namespaced_deployment api namespace;
          daemonsets_list = list_namespaced_daemon_set api namespace;
          pods_list = list_namespaced_pod api namespace;
          replicasets_list = list_namespaced_replica_set api namespace
      in collect_pod_specs
           (deployments_list @ statefulsets_list @ daemonsets_list @ replicasets_list)
           pods_list)"

section \<open>\<^verbatim>\<open>_list_all_secrets\<close>\<close>

text \<open>
  Line 67: the list comprehension \<^verbatim>\<open>[item.metadata.name for item in secrets_list.items]\<close>.
  The function is declared to return \<^verbatim>\<open>set[str]\<close>: the name of a listed secret is a
  string.
\<close>

fun secret_names :: "V1Secret list \<Rightarrow> error + string list" where
  "secret_names [] = Inr []"
| "secret_names (item # rest) =
     (case metadata item of
        None \<Rightarrow> Inl AttributeError
      | Some m \<Rightarrow>
          (case secret_names rest of
             Inl e \<Rightarrow> Inl e
           | Inr ns \<Rightarrow> Inr (meta_name m # ns)))"

definition list_all_secrets :: "cluster \<Rightarrow> string \<Rightarrow> error + string set" where
  "list_all_secrets api namespace =
     (case list_namespaced_secret api namespace of
        None \<Rightarrow> Inr {}
      | Some its \<Rightarrow>
          if its = [] then Inr {}
          else (case secret_names its of
                  Inl e \<Rightarrow> Inl e
                | Inr ns \<Rightarrow> Inr (set ns)))"

section \<open>\<^verbatim>\<open>list_unused_secrets_in_namespace\<close>\<close>

text \<open>
  Lines 21 and 24-26: the loop over the pod specs, which unions the used secrets of each
  into \<^verbatim>\<open>all_used_secrets\<close>. An exception of \<^verbatim>\<open>_get_used_secrets_in_pod_spec\<close> ends the
  loop.
\<close>

fun used_secrets_loop :: "V1PodSpec list \<Rightarrow> string option set \<Rightarrow> error + string option set" where
  "used_secrets_loop [] all_used_secrets = Inr all_used_secrets"
| "used_secrets_loop (pod_spec # rest) all_used_secrets =
     (case get_used_secrets_in_pod_spec pod_spec of
        Inl e \<Rightarrow> Inl e
      | Inr used_secrets \<Rightarrow> used_secrets_loop rest (all_used_secrets \<union> used_secrets))"

definition aggregate_used_secrets :: "V1PodSpec list \<Rightarrow> error + string option set" where
  "aggregate_used_secrets pod_specs = used_secrets_loop pod_specs {}"

text \<open>Line 30: the test that makes the loop skip a secret.\<close>

definition is_default_secret :: "string \<Rightarrow> bool" where
  "is_default_secret s =
     (prefix ''default-token-'' s \<or>
      prefix ''kubernetes.io/service-account'' s \<or>
      prefix ''sh.helm.release.v1'' s)"

text \<open>
  Lines 27-34. \<^verbatim>\<open>secrets - all_used_secrets\<close> keeps the elements of \<^verbatim>\<open>secrets\<close> that are
  not in \<^verbatim>\<open>all_used_secrets\<close>; the loop then adds to \<^verbatim>\<open>final_unused_secrets\<close> those that
  fail the test of line 30. Both are filters of a set: a \<^verbatim>\<open>for\<close> loop over a set that only
  adds to another set gives the same result in any order.
\<close>

definition resolve_unused_secrets :: "string set \<Rightarrow> string option set \<Rightarrow> string set" where
  "resolve_unused_secrets secrets all_used_secrets =
     (let unused_secrets = Set.filter (\<lambda>s. Some s \<notin> all_used_secrets) secrets
      in Set.filter (\<lambda>s. \<not> is_default_secret s) unused_secrets)"

definition list_unused_secrets_in_namespace :: "cluster \<Rightarrow> string \<Rightarrow> error + string set" where
  "list_unused_secrets_in_namespace api namespace =
     (case list_all_secrets api namespace of
        Inl e \<Rightarrow> Inl e
      | Inr secrets \<Rightarrow>
          (case get_all_pod_specs api namespace of
             Inl e \<Rightarrow> Inl e
           | Inr pod_specs \<Rightarrow>
               (case aggregate_used_secrets pod_specs of
                  Inl e \<Rightarrow> Inl e
                | Inr all_used_secrets \<Rightarrow>
                    Inr (resolve_unused_secrets secrets all_used_secrets))))"

section \<open>What the specification says of the same functions\<close>

text \<open>
  The secret names a pod template refers to, written from the specification and not from
  the loops: the non-empty secret names of the secret sources of its volumes, and, for
  each of its containers and init containers, the names of the secret key references of
  the environment variables and the non-empty names of the secret references of the
  env-from entries. An absent list counts as empty. \<open>Option.these A\<close> is the set of the
  \<open>x\<close> with \<open>Some x \<in> A\<close>.
\<close>

definition volume_secret_names :: "V1PodSpec \<Rightarrow> string option set" where
  "volume_secret_names p =
     Some ` {n \<in> Option.these (secret_name ` Option.these (secret ` set (or_empty (volumes p)))).
             n \<noteq> []}"

definition env_secret_names :: "V1Container \<Rightarrow> string option set" where
  "env_secret_names c =
     key_ref_name `
       Option.these (secret_key_ref ` Option.these (value_from ` set (or_empty (env c))))"

definition env_from_secret_names :: "V1Container \<Rightarrow> string option set" where
  "env_from_secret_names c =
     Some ` {n \<in> Option.these
                   (secret_ref_name ` Option.these (secret_ref ` set (or_empty (env_from c)))).
             n \<noteq> []}"

definition referenced_secrets :: "V1PodSpec \<Rightarrow> string option set" where
  "referenced_secrets p =
     volume_secret_names p \<union>
     (\<Union>c \<in> set (or_empty (containers p) @ or_empty (init_containers p)).
        env_secret_names c \<union> env_from_secret_names c)"

text \<open>
  The pod spec embedded in a controller: present when the controller's spec, its template
  and the template's inner spec all are.
\<close>

definition embedded_pod_spec :: "V1Controller \<Rightarrow> V1PodSpec option" where
  "embedded_pod_spec c =
     (case controller_spec c of
        None \<Rightarrow> None
      | Some s \<Rightarrow> (case template s of None \<Rightarrow> None | Some t \<Rightarrow> template_spec t))"

text \<open>\<^verbatim>\<open>_get_used_secrets_in_container\<close> with the loop of lines 153-156 removed.\<close>

definition get_used_secrets_in_container_without_mounts ::
  "V1Container \<Rightarrow> string option set" where
  "get_used_secrets_in_container_without_mounts container =
     (let used_secrets = {};
          used_secrets = for_each_if_present add_env_secret (env container) used_secrets;
          used_secrets = for_each_if_present add_env_from_secret (env_from container) used_secrets
      in used_secrets)"

section \<open>Example objects\<close>

text \<open>A pod that mounts the secret \<^verbatim>\<open>api-key\<close> as a volume.\<close>

definition web_pod :: V1PodSpec where
  "web_pod =
     \<lparr>volumes = Some [\<lparr>secret = Some \<lparr>secret_name = Some ''api-key''\<rparr>\<rparr>, \<lparr>secret = None\<rparr>],
      containers = Some [\<lparr>env = None, env_from = None,
                          volume_mounts = Some [\<lparr>mount_name = ''api-key''\<rparr>]\<rparr>],
      init_containers = None\<rparr>"

text \<open>
  A pod whose container reads a key of the secret \<^verbatim>\<open>db-pass\<close> into a variable, and whose
  init container imports the secret \<^verbatim>\<open>cfg-secret\<close>.
\<close>

definition worker_pod :: V1PodSpec where
  "worker_pod =
     \<lparr>volumes = None,
      containers =
        Some [\<lparr>env = Some [\<lparr>value_from =
                              Some \<lparr>secret_key_ref = Some \<lparr>key_ref_name = Some ''db-pass''\<rparr>\<rparr>\<rparr>,
                           \<lparr>value_from = None\<rparr>],
               env_from = None,
               volume_mounts = Some [\<lparr>mount_name = ''db-pass''\<rparr>, \<lparr>mount_name = ''data''\<rparr>]\<rparr>],
      init_containers =
        Some [\<lparr>env = Some [],
               env_from = Some [\<lparr>secret_ref = Some \<lparr>secret_ref_name = Some ''cfg-secret''\<rparr>\<rparr>],
               volume_mounts = Some []\<rparr>]\<rparr>"

text \<open>A pod with an empty list of containers and nothing else.\<close>

definition bare_pod :: V1PodSpec where
  "bare_pod = \<lparr>volumes = None, containers = Some [], init_containers = None\<rparr>"

text \<open>A pod spec whose \<^verbatim>\<open>containers\<close> attribute is \<^verbatim>\<open>None\<close>.\<close>

definition pod_without_containers :: V1PodSpec where
  "pod_without_containers =
     \<lparr>volumes = Some [\<lparr>secret = Some \<lparr>secret_name = Some ''api-key''\<rparr>\<rparr>],
      containers = None,
      init_containers = None\<rparr>"

text \<open>
  A container with two secret key references, one whose name is \<^verbatim>\<open>None\<close> and one whose
  name is empty, and two secret references of env-from entries with the same two names.
\<close>

definition nameless_key_ref :: V1EnvVar where
  "nameless_key_ref = \<lparr>value_from = Some \<lparr>secret_key_ref = Some \<lparr>key_ref_name = None\<rparr>\<rparr>\<rparr>"

definition empty_key_ref :: V1EnvVar where
  "empty_key_ref = \<lparr>value_from = Some \<lparr>secret_key_ref = Some \<lparr>key_ref_name = Some []\<rparr>\<rparr>\<rparr>"

definition nameless_container :: V1Container where
  "nameless_container =
     \<lparr>env = Some [nameless_key_ref, empty_key_ref],
      env_from = Some [\<lparr>secret_ref = Some \<lparr>secret_ref_name = None\<rparr>\<rparr>,
                       \<lparr>secret_ref = Some \<lparr>secret_ref_name = Some []\<rparr>\<rparr>],
      volume_mounts = None\<rparr>"

text \<open>A controller with the given pod spec in its template.\<close>

definition controller_of :: "V1PodSpec \<Rightarrow> V1Controller" where
  "controller_of p = \<lparr>controller_spec = Some \<lparr>template = Some \<lparr>template_spec = Some p\<rparr>\<rparr>\<rparr>"

text \<open>A controller whose \<^verbatim>\<open>spec\<close> attribute is \<^verbatim>\<open>None\<close>.\<close>

definition controller_without_spec :: V1Controller where
  "controller_without_spec = \<lparr>controller_spec = None\<rparr>"

text \<open>
  A cluster whose every namespace holds the secret \<^verbatim>\<open>api-key\<close> and one workload, a
  StatefulSet running \<open>web_pod\<close>.
\<close>

definition stateful_set_cluster :: cluster where
  "stateful_set_cluster =
     \<lparr>list_namespaced_secret = (\<lambda>namespace. Some [\<lparr>metadata = Some \<lparr>meta_name = ''api-key''\<rparr>\<rparr>]),
      list_namespaced_deployment = (\<lambda>namespace. []),
      list_namespaced_stateful_set = (\<lambda>namespace. [controller_of web_pod]),
      list_namespaced_daemon_set = (\<lambda>namespace. []),
      list_namespaced_pod = (\<lambda>namespace. []),
      list_namespaced_replica_set = (\<lambda>namespace. [])\<rparr>"

section \<open>The loops in closed form\<close>

lemmas example_defs = web_pod_def worker_pod_def bare_pod_def pod_without_containers_def
  nameless_key_ref_def empty_key_ref_def nameless_container_def controller_of_def
  controller_without_spec_def stateful_set_cluster_def

lemmas extractor_defs = get_used_secrets_in_pod_spec_def get_used_secrets_in_container_def
  for_each_if_present_def or_empty_def add_volume_secret_def add_env_secret_def
  add_env_from_secret_def add_volume_mount_def add_container_secrets_def

lemma for_each_if_present_fold:
  "for_each_if_present body xs s = fold body (or_empty xs) s"
  by (simp add: for_each_if_present_def or_empty_def split: option.split)

lemma these_Un: "Option.these (A \<union> B) = Option.these A \<union> Option.these B"
  by (auto simp: Option.these_def)

lemma add_env_secret_eq:
  "add_env_secret e S =
     S \<union> key_ref_name ` Option.these (secret_key_ref ` Option.these {value_from e})"
  by (simp add: add_env_secret_def split: option.split)

lemma fold_add_env_secret:
  "fold add_env_secret xs S =
     S \<union> key_ref_name ` Option.these (secret_key_ref ` Option.these (value_from ` set xs))"
  (is "_ = _ \<union> ?G xs")
proof (induction xs arbitrary: S)
  case Nil
  show ?case by simp
next
  case (Cons x xs)
  have head: "Option.these (insert (value_from x) (value_from ` set xs)) =
      Option.these {value_from x} \<union> Option.these (value_from ` set xs)"
    by (auto simp: in_these_eq)
  have "fold add_env_secret (x # xs) S = fold add_env_secret xs (add_env_secret x S)"
    by simp
  also have "\<dots> = add_env_secret x S \<union> ?G xs"
    by (rule Cons.IH)
  also have "\<dots> = S \<union> ?G (x # xs)"
    by (simp add: head add_env_secret_eq [of x S] these_Un image_Un Un_assoc)
  finally show ?case .
qed

lemma add_env_from_secret_eq:
  "add_env_from_secret e S =
     S \<union> Some ` {n \<in> Option.these (secret_ref_name ` Option.these {secret_ref e}). n \<noteq> []}"
  by (auto simp: add_env_from_secret_def split: option.split)

lemma fold_add_env_from_secret:
  "fold add_env_from_secret xs S =
     S \<union> Some ` {n \<in> Option.these (secret_ref_name ` Option.these (secret_ref ` set xs)).
                 n \<noteq> []}"
  (is "_ = _ \<union> ?G xs")
proof (induction xs arbitrary: S)
  case Nil
  show ?case by simp
next
  case (Cons x xs)
  have head: "Option.these (insert (secret_ref x) (secret_ref ` set xs)) =
      Option.these {secret_ref x} \<union> Option.these (secret_ref ` set xs)"
    by (auto simp: in_these_eq)
  have "fold add_env_from_secret (x # xs) S =
      fold add_env_from_secret xs (add_env_from_secret x S)"
    by simp
  also have "\<dots> = add_env_from_secret x S \<union> ?G xs"
    by (rule Cons.IH)
  also have "\<dots> = S \<union> ?G (x # xs)"
    by (auto simp: head add_env_from_secret_eq [of x S] these_Un image_Un Un_assoc)
  finally show ?case .
qed

lemma add_volume_secret_eq:
  "add_volume_secret v S =
     S \<union> Some ` {n \<in> Option.these (secret_name ` Option.these {secret v}). n \<noteq> []}"
  by (auto simp: add_volume_secret_def split: option.split)

lemma fold_add_volume_secret:
  "fold add_volume_secret xs S =
     S \<union> Some ` {n \<in> Option.these (secret_name ` Option.these (secret ` set xs)). n \<noteq> []}"
  (is "_ = _ \<union> ?G xs")
proof (induction xs arbitrary: S)
  case Nil
  show ?case by simp
next
  case (Cons x xs)
  have head: "Option.these (insert (secret x) (secret ` set xs)) =
      Option.these {secret x} \<union> Option.these (secret ` set xs)"
    by (auto simp: in_these_eq)
  have "fold add_volume_secret (x # xs) S = fold add_volume_secret xs (add_volume_secret x S)"
    by simp
  also have "\<dots> = add_volume_secret x S \<union> ?G xs"
    by (rule Cons.IH)
  also have "\<dots> = S \<union> ?G (x # xs)"
    by (auto simp: head add_volume_secret_eq [of x S] these_Un image_Un Un_assoc)
  finally show ?case .
qed

text \<open>The body of the loop over the volume mounts inserts an element the set holds.\<close>

lemma add_volume_mount_id: "add_volume_mount vm S = S"
  by (auto simp: add_volume_mount_def)

lemma fold_add_volume_mount: "fold add_volume_mount vms S = S"
  by (induction vms) (simp_all add: add_volume_mount_id)

lemma get_used_secrets_in_container_eq:
  "get_used_secrets_in_container c = env_secret_names c \<union> env_from_secret_names c"
  by (simp add: get_used_secrets_in_container_def for_each_if_present_fold
      fold_add_env_secret fold_add_env_from_secret fold_add_volume_mount
      env_secret_names_def env_from_secret_names_def)

lemma fold_add_container_secrets:
  "fold add_container_secrets cs S = S \<union> (\<Union>c \<in> set cs. get_used_secrets_in_container c)"
  by (induction cs arbitrary: S) (auto simp: add_container_secrets_def)

lemma get_used_secrets_in_pod_spec_eq:
  "get_used_secrets_in_pod_spec p =
     (case containers p of
        None \<Rightarrow> Inl AttributeError
      | Some cs \<Rightarrow> Inr (referenced_secrets p))"
  by (simp add: get_used_secrets_in_pod_spec_def for_each_if_present_fold
      fold_add_volume_secret fold_add_container_secrets get_used_secrets_in_container_eq
      referenced_secrets_def volume_secret_names_def or_empty_def split: option.split)

text \<open>
  The loop over the pod specs raises when some pod spec has no \<^verbatim>\<open>containers\<close>, and
  otherwise returns the union of what the pod specs refer to.
\<close>

lemma used_secrets_loop_eq:
  "used_secrets_loop ts A =
     (if None \<in> containers ` set ts then Inl AttributeError
      else Inr (A \<union> (\<Union>t \<in> set ts. referenced_secrets t)))"
proof (induction ts arbitrary: A)
  case Nil
  show ?case by simp
next
  case (Cons t ts)
  show ?case
    by (cases "containers t") (auto simp: Cons.IH get_used_secrets_in_pod_spec_eq)
qed

lemma aggregate_used_secrets_eq:
  "aggregate_used_secrets ts =
     (if None \<in> containers ` set ts then Inl AttributeError
      else Inr (\<Union>t \<in> set ts. referenced_secrets t))"
  by (simp add: aggregate_used_secrets_def used_secrets_loop_eq)

lemma aggregate_used_secrets_set_cong:
  "set ts' = set ts \<Longrightarrow> aggregate_used_secrets ts' = aggregate_used_secrets ts"
  by (simp add: aggregate_used_secrets_eq)

lemma resolve_unused_secrets_iff:
  "s \<in> resolve_unused_secrets secrets used \<longleftrightarrow>
     s \<in> secrets \<and> Some s \<notin> used \<and> \<not> is_default_secret s"
  by (auto simp: resolve_unused_secrets_def)

lemma resolve_unused_secrets_antitone:
  "U \<subseteq> U' \<Longrightarrow> resolve_unused_secrets secrets U' \<subseteq> resolve_unused_secrets secrets U"
  by (auto simp: resolve_unused_secrets_iff)

lemma controllers_loop_eq:
  "controllers_loop cs acc =
     (if None \<in> controller_spec ` set cs then Inl AttributeError
      else Inr (acc @ List.map_filter embedded_pod_spec cs))"
proof (induction cs arbitrary: acc)
  case Nil
  show ?case by simp
next
  case (Cons c cs)
  have c: "embedded_pod_spec c =
      (case controller_spec c of
         None \<Rightarrow> None
       | Some s \<Rightarrow> (case template s of None \<Rightarrow> None | Some t \<Rightarrow> template_spec t))"
    by (simp add: embedded_pod_spec_def)
  show ?case
    by (auto simp: Cons.IH c split: option.splits)
qed

lemma pods_loop_eq: "pods_loop ps acc = acc @ List.map_filter spec ps"
  by (induction ps arbitrary: acc) (auto split: option.splits)

lemma embedded_pod_spec_Some_iff:
  "embedded_pod_spec c = Some ps \<longleftrightarrow>
     (\<exists>s t. controller_spec c = Some s \<and> template s = Some t \<and> template_spec t = Some ps)"
  by (auto simp: embedded_pod_spec_def split: option.splits)

text \<open>The result of \<^verbatim>\<open>_get_all_pod_specs\<close> does not depend on the StatefulSets of the cluster.\<close>

lemma get_all_pod_specs_ignores_stateful_sets:
  "get_all_pod_specs (api\<lparr>list_namespaced_stateful_set := f\<rparr>) namespace =
     get_all_pod_specs api namespace"
  by (simp add: get_all_pod_specs_def)

subsection \<open>The examples, evaluated\<close>

lemma web_pod_used: "get_used_secrets_in_pod_spec web_pod = Inr {Some ''api-key''}"
  by (simp add: web_pod_def extractor_defs)

lemma worker_pod_used:
  "get_used_secrets_in_pod_spec worker_pod = Inr {Some ''db-pass'', Some ''cfg-secret''}"
  by (auto simp: worker_pod_def extractor_defs)

lemma aggregate_web_worker:
  "aggregate_used_secrets [web_pod, worker_pod] =
     Inr {Some ''api-key'', Some ''db-pass'', Some ''cfg-secret''}"
  by (auto simp: aggregate_used_secrets_def web_pod_used worker_pod_used)

section \<open>The unused-secret resolver\<close>

text \<open>
  Claim C1. Whatever the set of secrets of the namespace and whatever the set of used
  secrets, a secret whose name starts with \<^verbatim>\<open>default-token-\<close>,
  \<^verbatim>\<open>kubernetes.io/service-account\<close> or \<^verbatim>\<open>sh.helm.release.v1\<close> is not in the result of
  lines 27-34 of \<^verbatim>\<open>list_unused_secrets_in_namespace\<close>, be it used, unused or unknown to
  the used set.
\<close>

theorem C1_default_secrets_never_reported:
  "prefix ''default-token-'' s \<or>
   prefix ''kubernetes.io/service-account'' s \<or>
   prefix ''sh.helm.release.v1'' s \<Longrightarrow>
   s \<notin> resolve_unused_secrets secrets all_used_secrets"
  unfolding resolve_unused_secrets_iff is_default_secret_def by blast

text \<open>
  The namespace of the first scenario: \<^verbatim>\<open>db-pass\<close> and \<^verbatim>\<open>default-token-abc123\<close>, neither
  of them used. Only \<^verbatim>\<open>db-pass\<close> is reported.
\<close>

theorem C1_default_secrets_never_reported_witness:
  "(prefix ''default-token-'' ''default-token-abc123'' \<or>
    prefix ''kubernetes.io/service-account'' ''default-token-abc123'' \<or>
    prefix ''sh.helm.release.v1'' ''default-token-abc123'') \<and>
   ''default-token-abc123'' \<notin> resolve_unused_secrets {''db-pass'', ''default-token-abc123''} {} \<and>
   resolve_unused_secrets {''db-pass'', ''default-token-abc123''} {} = {''db-pass''}"
proof -
  have h: "prefix ''default-token-'' ''default-token-abc123''"
    by simp
  have r: "resolve_unused_secrets {''db-pass'', ''default-token-abc123''} {} = {''db-pass''}"
    by (auto simp: resolve_unused_secrets_def is_default_secret_def)
  from h have "''default-token-abc123'' \<notin>
      resolve_unused_secrets {''db-pass'', ''default-token-abc123''} {}"
    by (intro C1_default_secrets_never_reported) (rule disjI1)
  with h r show ?thesis by blast
qed

text \<open>
  Claim C2. Whatever the set of secrets of the namespace and whatever the set of used
  secrets, the result of lines 27-34 is a subset of the former and shares no element
  with the latter.
\<close>

theorem C2_unused_within_secrets_and_apart_from_used:
  "resolve_unused_secrets secrets all_used_secrets \<subseteq> secrets \<and>
   Some ` resolve_unused_secrets secrets all_used_secrets \<inter> all_used_secrets = {}"
  by (auto simp: resolve_unused_secrets_iff)

text \<open>The namespace of the second scenario: \<^verbatim>\<open>api-key\<close> is used, \<^verbatim>\<open>unused-one\<close> is not.\<close>

theorem C2_unused_within_secrets_and_apart_from_used_witness:
  "resolve_unused_secrets {''api-key'', ''unused-one''} {Some ''api-key''} \<subseteq>
     {''api-key'', ''unused-one''} \<and>
   Some ` resolve_unused_secrets {''api-key'', ''unused-one''} {Some ''api-key''} \<inter>
     {Some ''api-key''} = {} \<and>
   resolve_unused_secrets {''api-key'', ''unused-one''} {Some ''api-key''} = {''unused-one''}"
proof -
  have r: "resolve_unused_secrets {''api-key'', ''unused-one''} {Some ''api-key''} =
      {''unused-one''}"
    by (auto simp: resolve_unused_secrets_def is_default_secret_def)
  from r C2_unused_within_secrets_and_apart_from_used
    [of "{''api-key'', ''unused-one''}" "{Some ''api-key''}"]
  show ?thesis by blast
qed

section \<open>The pod-template collector\<close>

text \<open>
  Claim C3. The claim is that the collector returns the pod template of every StatefulSet
  of the namespace. In \<open>stateful_set_cluster\<close> the namespace \<^verbatim>\<open>prod\<close> has one workload, a
  StatefulSet whose template and inner spec are present and mount the secret \<^verbatim>\<open>api-key\<close>.
  \<^verbatim>\<open>_get_all_pod_specs\<close> returns no pod spec at all there, and
  \<^verbatim>\<open>list_unused_secrets_in_namespace\<close> reports \<^verbatim>\<open>api-key\<close> as unused: the listing bound to
  \<^verbatim>\<open>statefulsets_list\<close> is that of the Deployments.
\<close>

theorem C3_stateful_set_template_not_collected:
  "list_namespaced_stateful_set stateful_set_cluster ''prod'' = [controller_of web_pod] \<and>
   embedded_pod_spec (controller_of web_pod) = Some web_pod \<and>
   get_used_secrets_in_pod_spec web_pod = Inr {Some ''api-key''} \<and>
   get_all_pod_specs stateful_set_cluster ''prod'' = Inr [] \<and>
   list_unused_secrets_in_namespace stateful_set_cluster ''prod'' = Inr {''api-key''}"
proof -
  have pods: "get_all_pod_specs stateful_set_cluster ''prod'' = Inr []"
    by (simp add: get_all_pod_specs_def collect_pod_specs_def stateful_set_cluster_def)
  have secrets: "list_all_secrets stateful_set_cluster ''prod'' = Inr {''api-key''}"
    by (simp add: list_all_secrets_def stateful_set_cluster_def)
  have "resolve_unused_secrets {''api-key''} {} = {''api-key''}"
    by (auto simp: resolve_unused_secrets_def is_default_secret_def)
  then have "list_unused_secrets_in_namespace stateful_set_cluster ''prod'' = Inr {''api-key''}"
    by (simp add: list_unused_secrets_in_namespace_def pods secrets aggregate_used_secrets_def)
  moreover have "embedded_pod_spec (controller_of web_pod) = Some web_pod"
    by (simp add: embedded_pod_spec_def controller_of_def)
  moreover have "list_namespaced_stateful_set stateful_set_cluster ''prod'' =
      [controller_of web_pod]"
    by (simp add: stateful_set_cluster_def)
  ultimately show ?thesis
    using pods web_pod_used by simp
qed

text \<open>
  A controller whose \<^verbatim>\<open>spec\<close> is \<^verbatim>\<open>None\<close> is not skipped: the test of line 99 reads
  \<^verbatim>\<open>deployment.spec.template\<close> and raises.
\<close>

theorem C6_controller_without_spec_raises:
  "collect_pod_specs [controller_without_spec] [] = Inl AttributeError"
  by (simp add: collect_pod_specs_def controller_without_spec_def)

text \<open>
  Claim C6, amended. When every controller the loop of lines 98-100 goes through has a
  \<^verbatim>\<open>spec\<close>, the two loops raise nothing and return, in order, the embedded pod spec of each
  controller whose template and whose template's inner spec are both present, then the
  spec of each standalone pod that has one. A controller or a pod that fails its test adds
  nothing.
\<close>

theorem C6_collect_pod_specs:
  assumes "\<forall>c \<in> set controllers. controller_spec c \<noteq> None"
  shows "collect_pod_specs controllers pods =
     Inr (List.map_filter embedded_pod_spec controllers @ List.map_filter spec pods)"
proof -
  from assms have "None \<notin> controller_spec ` set controllers"
    by force
  then show ?thesis
    by (simp add: collect_pod_specs_def controllers_loop_eq pods_loop_eq)
qed

text \<open>
  Three controllers, one with no template and one whose template has no inner spec, and
  two pods, one with no spec: the two well-formed objects give the result.
\<close>

theorem C6_collect_pod_specs_witness:
  "collect_pod_specs
     [controller_of web_pod,
      \<lparr>controller_spec = Some \<lparr>template = None\<rparr>\<rparr>,
      \<lparr>controller_spec = Some \<lparr>template = Some \<lparr>template_spec = None\<rparr>\<rparr>\<rparr>]
     [\<lparr>spec = None\<rparr>, \<lparr>spec = Some worker_pod\<rparr>] =
   Inr [web_pod, worker_pod]"
proof -
  let ?cs = "[controller_of web_pod,
      \<lparr>controller_spec = Some \<lparr>template = None\<rparr>\<rparr>,
      \<lparr>controller_spec = Some \<lparr>template = Some \<lparr>template_spec = None\<rparr>\<rparr>\<rparr>]"
  have h: "\<forall>c \<in> set ?cs. controller_spec c \<noteq> None"
    by (simp add: controller_of_def)
  have "embedded_pod_spec (controller_of web_pod) = Some web_pod"
    by (simp add: embedded_pod_spec_def controller_of_def)
  moreover have "embedded_pod_spec \<lparr>controller_spec = Some \<lparr>template = None\<rparr>\<rparr> = None"
    by (simp add: embedded_pod_spec_def)
  moreover have "embedded_pod_spec
      \<lparr>controller_spec = Some \<lparr>template = Some \<lparr>template_spec = None\<rparr>\<rparr>\<rparr> = None"
    by (simp add: embedded_pod_spec_def)
  ultimately have e: "List.map_filter embedded_pod_spec ?cs = [web_pod]"
    by simp
  have p: "List.map_filter spec [\<lparr>spec = None\<rparr>, \<lparr>spec = Some worker_pod\<rparr>] = [worker_pod]"
    by simp
  show ?thesis
    unfolding C6_collect_pod_specs [OF h] e p by simp
qed

section \<open>The reference extractor\<close>

text \<open>
  A pod template whose \<^verbatim>\<open>containers\<close> attribute is \<^verbatim>\<open>None\<close> makes the extractor raise:
  line 124 calls \<^verbatim>\<open>copy\<close> on it.
\<close>

theorem C4_pod_without_containers_raises:
  "get_used_secrets_in_pod_spec pod_without_containers = Inl AttributeError"
  by (simp add: pod_without_containers_def get_used_secrets_in_pod_spec_def)

text \<open>
  Claim C4, amended. For every pod template whose \<^verbatim>\<open>containers\<close> attribute is present,
  the extractor raises nothing and returns a set. The volumes and the init containers of
  the template, and the env, env-from and volume-mount lists of a container, may be absent
  or empty: an absent list gives what the empty list gives.
\<close>

theorem C4_extractor_returns_when_containers_present:
  assumes "containers p = Some cs"
  shows "(\<exists>S. get_used_secrets_in_pod_spec p = Inr S) \<and>
     get_used_secrets_in_pod_spec (p\<lparr>volumes := None\<rparr>) =
       get_used_secrets_in_pod_spec (p\<lparr>volumes := Some []\<rparr>) \<and>
     get_used_secrets_in_pod_spec (p\<lparr>init_containers := None\<rparr>) =
       get_used_secrets_in_pod_spec (p\<lparr>init_containers := Some []\<rparr>) \<and>
     get_used_secrets_in_container (c\<lparr>env := None\<rparr>) =
       get_used_secrets_in_container (c\<lparr>env := Some []\<rparr>) \<and>
     get_used_secrets_in_container (c\<lparr>env_from := None\<rparr>) =
       get_used_secrets_in_container (c\<lparr>env_from := Some []\<rparr>) \<and>
     get_used_secrets_in_container (c\<lparr>volume_mounts := None\<rparr>) =
       get_used_secrets_in_container (c\<lparr>volume_mounts := Some []\<rparr>)"
  using assms
  by (simp add: get_used_secrets_in_pod_spec_def get_used_secrets_in_container_def
      for_each_if_present_def or_empty_def)

text \<open>
  A pod template with an empty list of containers and every other attribute absent: the
  extractor returns the empty set.
\<close>

theorem C4_extractor_returns_when_containers_present_witness:
  "containers bare_pod = Some [] \<and>
   (\<exists>S. get_used_secrets_in_pod_spec bare_pod = Inr S) \<and>
   get_used_secrets_in_pod_spec bare_pod = Inr {}"
proof -
  have h: "containers bare_pod = Some []"
    by (simp add: bare_pod_def)
  have v: "get_used_secrets_in_pod_spec bare_pod = Inr {}"
    by (simp add: bare_pod_def extractor_defs)
  from C4_extractor_returns_when_containers_present [OF h]
  have "\<exists>S. get_used_secrets_in_pod_spec bare_pod = Inr S"
    by (rule conjunct1)
  with h v show ?thesis by blast
qed

text \<open>
  Claim C5. For every pod template, the set the extractor returns is the union of the
  non-empty secret names of the secret sources of its volumes and, over its containers
  and init containers, of the names of the secret key references of the environment
  variables and of the names, where present and non-empty, of the secret references of
  the env-from entries. It returns that set whenever the \<^verbatim>\<open>containers\<close> attribute is
  present.
\<close>

theorem C5_extractor_returns_the_referenced_secrets:
  "(\<forall>S. get_used_secrets_in_pod_spec p = Inr S \<longrightarrow> S = referenced_secrets p) \<and>
   (containers p \<noteq> None \<longrightarrow> get_used_secrets_in_pod_spec p = Inr (referenced_secrets p))"
  by (auto simp: get_used_secrets_in_pod_spec_eq split: option.splits)

text \<open>
  \<open>worker_pod\<close> refers to \<^verbatim>\<open>db-pass\<close> through a variable of its container and to
  \<^verbatim>\<open>cfg-secret\<close> through its init container.
\<close>

theorem C5_extractor_returns_the_referenced_secrets_witness:
  "containers worker_pod \<noteq> None \<and>
   get_used_secrets_in_pod_spec worker_pod = Inr (referenced_secrets worker_pod) \<and>
   referenced_secrets worker_pod = {Some ''db-pass'', Some ''cfg-secret''}"
proof -
  have h: "containers worker_pod \<noteq> None"
    by (simp add: worker_pod_def)
  from C5_extractor_returns_the_referenced_secrets [of worker_pod] h
  have r: "get_used_secrets_in_pod_spec worker_pod = Inr (referenced_secrets worker_pod)"
    by blast
  with worker_pod_used have "referenced_secrets worker_pod = {Some ''db-pass'', Some ''cfg-secret''}"
    by simp
  with h r show ?thesis by blast
qed

text \<open>
  Claim C8. For every container, \<^verbatim>\<open>_get_used_secrets_in_container\<close> returns the set that
  the same function returns with the loop over the volume mounts removed.
\<close>

theorem C8_volume_mount_loop_changes_nothing:
  "get_used_secrets_in_container c = get_used_secrets_in_container_without_mounts c"
  by (simp add: get_used_secrets_in_container_def
      get_used_secrets_in_container_without_mounts_def
      for_each_if_present_fold fold_add_volume_mount)

text \<open>
  A container that reads a key of \<^verbatim>\<open>db-pass\<close> and has two volume mounts, one of them named
  \<^verbatim>\<open>db-pass\<close> too.
\<close>

theorem C8_volume_mount_loop_changes_nothing_witness:
  "get_used_secrets_in_container_without_mounts
     \<lparr>env = Some [\<lparr>value_from = Some \<lparr>secret_key_ref = Some \<lparr>key_ref_name = Some ''db-pass''\<rparr>\<rparr>\<rparr>],
      env_from = None,
      volume_mounts = Some [\<lparr>mount_name = ''db-pass''\<rparr>, \<lparr>mount_name = ''data''\<rparr>]\<rparr> =
   {Some ''db-pass''} \<and>
   get_used_secrets_in_container
     \<lparr>env = Some [\<lparr>value_from = Some \<lparr>secret_key_ref = Some \<lparr>key_ref_name = Some ''db-pass''\<rparr>\<rparr>\<rparr>],
      env_from = None,
      volume_mounts = Some [\<lparr>mount_name = ''db-pass''\<rparr>, \<lparr>mount_name = ''data''\<rparr>]\<rparr> =
   {Some ''db-pass''}"
  unfolding C8_volume_mount_loop_changes_nothing
  by (simp add: get_used_secrets_in_container_without_mounts_def for_each_if_present_def
      add_env_secret_def)

text \<open>
  Claim C10. When an environment variable of a container has a value source with a secret
  key reference, the name of the reference is in the set of the container, whatever it
  is: \<^verbatim>\<open>None\<close> and the empty string too. The loop over the env-from entries and the loop
  over the volumes add neither \<^verbatim>\<open>None\<close> nor the empty string.
\<close>

theorem C10_env_path_adds_any_name:
  "(env c = Some es \<and> e \<in> set es \<and> value_from e = Some vf \<and> secret_key_ref vf = Some r \<longrightarrow>
      key_ref_name r \<in> get_used_secrets_in_container c) \<and>
   None \<notin> for_each_if_present add_env_from_secret (env_from c) {} \<and>
   Some [] \<notin> for_each_if_present add_env_from_secret (env_from c) {} \<and>
   None \<notin> for_each_if_present add_volume_secret (volumes p) {} \<and>
   Some [] \<notin> for_each_if_present add_volume_secret (volumes p) {}"
proof -
  have "key_ref_name r \<in> get_used_secrets_in_container c"
    if "env c = Some es" "e \<in> set es" "value_from e = Some vf" "secret_key_ref vf = Some r"
  proof -
    from that have "Some vf \<in> value_from ` set (or_empty (env c))"
      by (force simp: or_empty_def)
    then have "vf \<in> Option.these (value_from ` set (or_empty (env c)))"
      by (simp add: in_these_eq)
    with that have "Some r \<in> secret_key_ref ` Option.these (value_from ` set (or_empty (env c)))"
      by force
    then have "key_ref_name r \<in> env_secret_names c"
      unfolding env_secret_names_def by (simp add: in_these_eq)
    then show ?thesis
      by (simp add: get_used_secrets_in_container_eq)
  qed
  then show ?thesis
    by (auto simp: for_each_if_present_fold fold_add_env_from_secret fold_add_volume_secret)
qed

text \<open>
  \<open>nameless_container\<close> has a key reference named \<^verbatim>\<open>None\<close> and one with the empty name, and
  env-from entries with the same two names: its set is that of the two key references.
\<close>

theorem C10_env_path_adds_any_name_witness:
  "None \<in> get_used_secrets_in_container nameless_container \<and>
   Some [] \<in> get_used_secrets_in_container nameless_container \<and>
   for_each_if_present add_env_from_secret (env_from nameless_container) {} = {}"
proof -
  have e: "env nameless_container = Some [nameless_key_ref, empty_key_ref]"
    by (simp add: nameless_container_def)
  have "value_from nameless_key_ref = Some \<lparr>secret_key_ref = Some \<lparr>key_ref_name = None\<rparr>\<rparr>"
    by (simp add: nameless_key_ref_def)
  with e C10_env_path_adds_any_name [of nameless_container "[nameless_key_ref, empty_key_ref]"
      nameless_key_ref "\<lparr>secret_key_ref = Some \<lparr>key_ref_name = None\<rparr>\<rparr>" "\<lparr>key_ref_name = None\<rparr>"
      bare_pod]
  have n: "None \<in> get_used_secrets_in_container nameless_container"
    by simp
  have "value_from empty_key_ref = Some \<lparr>secret_key_ref = Some \<lparr>key_ref_name = Some []\<rparr>\<rparr>"
    by (simp add: empty_key_ref_def)
  with e C10_env_path_adds_any_name [of nameless_container "[nameless_key_ref, empty_key_ref]"
      empty_key_ref "\<lparr>secret_key_ref = Some \<lparr>key_ref_name = Some []\<rparr>\<rparr>"
      "\<lparr>key_ref_name = Some []\<rparr>" bare_pod]
  have s: "Some [] \<in> get_used_secrets_in_container nameless_container"
    by simp
  have "for_each_if_present add_env_from_secret (env_from nameless_container) {} = {}"
    by (simp add: nameless_container_def for_each_if_present_def add_env_from_secret_def)
  with n s show ?thesis by blast
qed

section \<open>The usage aggregator\<close>

text \<open>
  Claim C7. The loop of lines 24-26 gives the same result for a list of pod templates
  and for any permutation of it, and the same result for a list and for the list
  followed by itself.
\<close>

theorem C7_aggregate_order_and_duplication:
  "(mset ts' = mset ts \<longrightarrow> aggregate_used_secrets ts' = aggregate_used_secrets ts) \<and>
   aggregate_used_secrets (ts @ ts) = aggregate_used_secrets ts"
proof
  show "mset ts' = mset ts \<longrightarrow> aggregate_used_secrets ts' = aggregate_used_secrets ts"
    by (auto dest: mset_eq_setD intro: aggregate_used_secrets_set_cong)
  show "aggregate_used_secrets (ts @ ts) = aggregate_used_secrets ts"
    by (rule aggregate_used_secrets_set_cong) simp
qed

theorem C7_aggregate_order_and_duplication_witness:
  "mset [worker_pod, web_pod] = mset [web_pod, worker_pod] \<and>
   aggregate_used_secrets [worker_pod, web_pod] =
     Inr {Some ''api-key'', Some ''db-pass'', Some ''cfg-secret''} \<and>
   aggregate_used_secrets ([web_pod, worker_pod] @ [web_pod, worker_pod]) =
     Inr {Some ''api-key'', Some ''db-pass'', Some ''cfg-secret''}"
proof -
  have h: "mset [worker_pod, web_pod] = mset [web_pod, worker_pod]"
    by simp
  from C7_aggregate_order_and_duplication [of "[worker_pod, web_pod]" "[web_pod, worker_pod]"] h
  have "aggregate_used_secrets [worker_pod, web_pod] = aggregate_used_secrets [web_pod, worker_pod]"
    and "aggregate_used_secrets ([web_pod, worker_pod] @ [web_pod, worker_pod]) =
      aggregate_used_secrets [web_pod, worker_pod]"
    by blast+
  with h show ?thesis
    by (simp only: aggregate_web_worker simp_thms)
qed

text \<open>
  Claim C9. When the loop of lines 24-26 returns for a list of pod templates followed by
  one more template, it returns for the list alone too, the set for the longer list
  contains the set for the list, and, for any set of secrets of the namespace, the unused
  secrets computed from the longer list are among those computed from the list.
\<close>

theorem C9_more_templates_fewer_unused:
  assumes "aggregate_used_secrets (ts @ [t]) = Inr U'"
  shows "\<exists>U. aggregate_used_secrets ts = Inr U \<and> U \<subseteq> U' \<and>
     resolve_unused_secrets secrets U' \<subseteq> resolve_unused_secrets secrets U"
proof -
  from assms have ok: "None \<notin> containers ` set (ts @ [t])"
    and U': "U' = (\<Union>x \<in> set (ts @ [t]). referenced_secrets x)"
    by (auto simp: aggregate_used_secrets_eq split: if_splits)
  let ?U = "\<Union>x \<in> set ts. referenced_secrets x"
  from ok have "aggregate_used_secrets ts = Inr ?U"
    by (auto simp: aggregate_used_secrets_eq)
  moreover have "?U \<subseteq> U'"
    unfolding U' by auto
  ultimately show ?thesis
    using resolve_unused_secrets_antitone by blast
qed

theorem C9_more_templates_fewer_unused_witness:
  "aggregate_used_secrets ([web_pod] @ [worker_pod]) =
     Inr {Some ''api-key'', Some ''db-pass'', Some ''cfg-secret''} \<and>
   (\<exists>U. aggregate_used_secrets [web_pod] = Inr U \<and>
      U \<subseteq> {Some ''api-key'', Some ''db-pass'', Some ''cfg-secret''} \<and>
      resolve_unused_secrets {''db-pass'', ''stale''}
        {Some ''api-key'', Some ''db-pass'', Some ''cfg-secret''} \<subseteq>
      resolve_unused_secrets {''db-pass'', ''stale''} U)"
proof -
  have h: "aggregate_used_secrets ([web_pod] @ [worker_pod]) =
      Inr {Some ''api-key'', Some ''db-pass'', Some ''cfg-secret''}"
    using aggregate_web_worker by simp
  from h C9_more_templates_fewer_unused [OF h, of "{''db-pass'', ''stale''}"]
  show ?thesis by (rule conjI)
qed

end
